theory Spec2Isabelle
  imports Complex_Main "HOL-Library.Word"
begin

section \<open>Data model of the voice processing engine\<close>

text \<open>
  The engine (class \<open>VoiceProcessingEngine\<close>) is event driven: every callback of the
  source (an animation frame, a timer, a recorder event, the continuation of an
  \<open>await\<close>, an audio element event) runs to completion before the next one starts.
  Each callback is a function from the state before to the state after; the platform
  chooses the order of the callbacks, which is a list of events.

  JavaScript numbers are modelled as reals (exact arithmetic: the rounding of doubles is
  not modelled), strings as lists of UTF-16 code units, a \<open>Uint8Array\<close> as a list of
  bytes. The fields \<open>stream\<close>, \<open>audioContext\<close> and \<open>interruptionBuffer\<close> of the class
  are read by none of the callbacks below and are left out.
\<close>

type_synonym jsstring = "16 word list"
type_synonym blob = "8 word list"

definition utf16 :: "string \<Rightarrow> jsstring" where
  "utf16 cs = map of_char cs"

datatype RecordingState = Inactive | Recording | Paused

datatype error = Error string

text \<open>
  One \<open>HTMLAudioElement\<close>. \<open>owner\<close> is the pipeline run whose promise the element's
  \<open>onended\<close> and \<open>onerror\<close> closures settle.
\<close>

record HTMLAudioElement =
  src :: jsstring
  paused :: bool
  owner :: nat

text \<open>
  One call of \<open>processAudioWithInterruption\<close>: its local variables and the \<open>await\<close> at
  which it is suspended. \<open>Returned\<close>: its promise is fulfilled.
\<close>

datatype stage =
    AwaitBase64 | AwaitSTT | AwaitGPT | AwaitSpeech | AwaitPlayback nat | Returned

record run =
  processingId :: jsstring
  startTime :: real
  sttTime :: real
  gptStartTime :: real
  gptTime :: real
  ttsStartTime :: real
  stage :: stage

text \<open>What the engine does to the outside world, in order; the number is the run.\<close>

datatype effect =
    ReadAsDataURL nat blob
  | TranscribeAudio nat jsstring
  | GenerateText nat jsstring
  | GenerateSpeech nat jsstring
  | AudioPlay nat nat
  | AudioPause nat
  | LogProcessingMetrics nat real real real real
  | ConsoleError nat string error
  | ConsoleLog string
  | RecorderStart
  | RecorderStartFailed
  | RecorderStop

record VoiceProcessingState =
  isListening :: bool
  isProcessing :: bool
  isSpeaking :: bool
  currentVolume :: real
  silenceDetected :: bool
  interruptionDetected :: bool

text \<open>
  The engine's fields, then what its closures and the platform hold: the recorder's
  \<open>audioChunks\<close>, the audio elements created so far, the pipeline runs started so far
  and the effects so far. \<open>mediaRecorder\<close> is the recorder's \<open>state\<close> (\<open>None\<close>: the field
  is null); \<open>analyser\<close> says whether the field is set; \<open>silenceTimer\<close> is the time at
  which the pending timeout is due (\<open>None\<close>: the field is null); \<open>currentAudio\<close> is an
  index into \<open>audios\<close>.
\<close>

record engine =
  mediaRecorder :: "RecordingState option"
  analyser :: bool
  isProcessing :: bool
  silenceTimer :: "real option"
  currentProcessingId :: "jsstring option"
  currentAudio :: "nat option"
  audioChunks :: "blob list"
  audios :: "HTMLAudioElement list"
  runs :: "run list"
  effects :: "effect list"

definition SILENCE_THRESHOLD :: real where
  "SILENCE_THRESHOLD = 0.01"

definition SILENCE_DURATION :: real where
  "SILENCE_DURATION = 1500"

definition INTERRUPTION_THRESHOLD :: real where
  "INTERRUPTION_THRESHOLD = 0.05"

definition emit :: "effect list \<Rightarrow> engine \<Rightarrow> engine" where
  "emit es s = s\<lparr>effects := effects s @ es\<rparr>"

definition update_run :: "nat \<Rightarrow> (run \<Rightarrow> run) \<Rightarrow> engine \<Rightarrow> engine" where
  "update_run r f s = s\<lparr>runs := (runs s)[r := f (runs s ! r)]\<rparr>"

section \<open>Strings\<close>

text \<open>\<open>Date.now().toString()\<close>: the decimal digits of a non-negative integer.\<close>

fun toString :: "nat \<Rightarrow> jsstring" where
  "toString n =
     (if n < 10 then [48 + of_nat n] else toString (n div 10) @ [48 + of_nat (n mod 10)])"

declare toString.simps [simp del]

text \<open>
  \<open>String.prototype.trim\<close> removes the WhiteSpace and LineTerminator code points of
  ECMAScript from both ends.
\<close>

definition isWhiteSpace :: "16 word \<Rightarrow> bool" where
  "isWhiteSpace c =
     (c = 0x09 \<or> c = 0x0A \<or> c = 0x0B \<or> c = 0x0C \<or> c = 0x0D \<or> c = 0x20 \<or> c = 0xA0
      \<or> c = 0x1680 \<or> (0x2000 \<le> c \<and> c \<le> 0x200A) \<or> c = 0x2028 \<or> c = 0x2029
      \<or> c = 0x202F \<or> c = 0x205F \<or> c = 0x3000 \<or> c = 0xFEFF)"

definition trim :: "jsstring \<Rightarrow> jsstring" where
  "trim t = rev (dropWhile isWhiteSpace (rev (dropWhile isWhiteSpace t)))"

section \<open>Volume\<close>

text \<open>The two accumulation loops over the frequency snapshot.\<close>

fun sumSquares :: "blob \<Rightarrow> nat" where
  "sumSquares [] = 0"
| "sumSquares (b # bs) = unat b * unat b + sumSquares bs"

fun sumBytes :: "blob \<Rightarrow> nat" where
  "sumBytes [] = 0"
| "sumBytes (b # bs) = unat b + sumBytes bs"

text \<open>
  \<open>detectActivity\<close>: \<open>Math.sqrt(sum / bufferLength) / 255\<close>, where \<open>bufferLength\<close> is the
  length of the snapshot.
\<close>

definition rms :: "blob \<Rightarrow> real" where
  "rms dataArray = sqrt (real (sumSquares dataArray) / real (length dataArray)) / 255"

definition getCurrentVolume :: "blob \<Rightarrow> engine \<Rightarrow> real" where
  "getCurrentVolume dataArray s =
     (if \<not> analyser s then 0
      else real (sumBytes dataArray) / real (length dataArray) / 255)"

definition audioPlaying :: "engine \<Rightarrow> bool" where
  "audioPlaying s = (case currentAudio s of None \<Rightarrow> False | Some a \<Rightarrow> \<not> paused (audios s ! a))"

definition getProcessingState :: "blob \<Rightarrow> engine \<Rightarrow> VoiceProcessingState" where
  "getProcessingState dataArray s =
     \<lparr> isListening = (mediaRecorder s = Some Recording),
       isProcessing = engine.isProcessing s,
       isSpeaking = audioPlaying s,
       currentVolume = getCurrentVolume dataArray s,
       silenceDetected = (silenceTimer s \<noteq> None),
       interruptionDetected = False \<rparr>"

section \<open>Interruption and voice activity detection\<close>

definition pauseAudio :: "nat \<Rightarrow> engine \<Rightarrow> engine" where
  "pauseAudio a s =
     emit [AudioPause a] (s\<lparr>audios := (audios s)[a := (audios s ! a)\<lparr>paused := True\<rparr>]\<rparr>)"

definition interruptCurrentResponse :: "engine \<Rightarrow> engine" where
  "interruptCurrentResponse s =
     (let s1 = (case currentAudio s of
                  None \<Rightarrow> s
                | Some a \<Rightarrow> (pauseAudio a s)\<lparr>currentAudio := None\<rparr>)
      in emit [ConsoleLog ''Response interrupted by user''] (s1\<lparr>currentProcessingId := None\<rparr>))"

text \<open>
  \<open>RecorderStart\<close> is the call \<open>mediaRecorder.start(100)\<close>. \<open>startOk\<close> says whether the
  platform accepts it: then the recorder records; when the call throws, the \<open>catch\<close> logs
  (\<open>RecorderStartFailed\<close>) and the recorder stays inactive.
\<close>

definition handleVoiceActivity :: "bool \<Rightarrow> real \<Rightarrow> engine \<Rightarrow> engine" where
  "handleVoiceActivity startOk volume s =
     (let s1 = (if silenceTimer s \<noteq> None then s\<lparr>silenceTimer := None\<rparr> else s);
          s2 = (if audioPlaying s1 then interruptCurrentResponse s1 else s1)
      in if mediaRecorder s2 = Some Inactive
         then (if startOk then emit [RecorderStart] (s2\<lparr>mediaRecorder := Some Recording\<rparr>)
               else emit [RecorderStart, RecorderStartFailed] s2)
         else s2)"

text \<open>
  The callback handed to \<open>setTimeout\<close> by \<open>handleSilence\<close>. \<open>mediaRecorder.stop()\<close> is
  called on a recorder that records, where it does not throw.
\<close>

definition silenceTimerCallback :: "engine \<Rightarrow> engine" where
  "silenceTimerCallback s =
     (let s1 = (if mediaRecorder s = Some Recording
                then emit [RecorderStop] (s\<lparr>mediaRecorder := Some Inactive\<rparr>)
                else s)
      in s1\<lparr>silenceTimer := None\<rparr>)"

text \<open>\<open>now\<close> is the time of the call: the timeout is due \<open>SILENCE_DURATION\<close> later.\<close>

definition handleSilence :: "real \<Rightarrow> engine \<Rightarrow> engine" where
  "handleSilence now s =
     (if silenceTimer s \<noteq> None then s
      else s\<lparr>silenceTimer := Some (now + SILENCE_DURATION)\<rparr>)"

definition detectActivity :: "real \<Rightarrow> blob \<Rightarrow> bool \<Rightarrow> engine \<Rightarrow> engine" where
  "detectActivity now dataArray startOk s =
     (if \<not> analyser s then s
      else if rms dataArray > INTERRUPTION_THRESHOLD
           then handleVoiceActivity startOk (rms dataArray) s
      else if rms dataArray < SILENCE_THRESHOLD then handleSilence now s
      else s)"

section \<open>Recorder handlers\<close>

text \<open>\<open>mediaRecorder.ondataavailable\<close>: keep the chunk when it is not empty.\<close>

definition ondataavailable :: "blob \<Rightarrow> engine \<Rightarrow> engine" where
  "ondataavailable chunk s =
     (if length chunk > 0 then s\<lparr>audioChunks := audioChunks s @ [chunk]\<rparr> else s)"

section \<open>The pipeline: one function per continuation of processAudioWithInterruption\<close>

text \<open>The \<open>finally\<close> block, entered on every exit, and the \<open>catch\<close> block before it.\<close>

definition finallyBlock :: "nat \<Rightarrow> engine \<Rightarrow> engine" where
  "finallyBlock r s = update_run r (\<lambda>x. x\<lparr>stage := Returned\<rparr>) (s\<lparr>isProcessing := False\<rparr>)"

definition catchBlock :: "nat \<Rightarrow> error \<Rightarrow> engine \<Rightarrow> engine" where
  "catchBlock r e s = finallyBlock r (emit [ConsoleError r ''Voice processing error:'' e] s)"

text \<open>
  From the call to the first \<open>await\<close>. \<open>dateNow\<close> is the reading of \<open>Date.now()\<close>,
  \<open>perfNow\<close> that of \<open>performance.now()\<close>. The run is the next index of \<open>runs\<close>.
\<close>

definition processAudioWithInterruption :: "nat \<Rightarrow> real \<Rightarrow> blob \<Rightarrow> engine \<Rightarrow> engine" where
  "processAudioWithInterruption dateNow perfNow audioBlob s =
     (let pid = toString dateNow; r = length (runs s)
      in emit [ReadAsDataURL r audioBlob]
           (s\<lparr>currentProcessingId := Some pid,
              isProcessing := True,
              runs := runs s @
                [\<lparr>processingId = pid, startTime = perfNow, sttTime = 0, gptStartTime = 0,
                   gptTime = 0, ttsStartTime = 0, stage = AwaitBase64\<rparr>]\<rparr>))"

text \<open>\<open>mediaRecorder.onstop\<close>.\<close>

definition onstop :: "nat \<Rightarrow> real \<Rightarrow> engine \<Rightarrow> engine" where
  "onstop dateNow perfNow s =
     (if audioChunks s = [] then s
      else processAudioWithInterruption dateNow perfNow (concat (audioChunks s))
             (s\<lparr>audioChunks := []\<rparr>))"

text \<open>\<open>blobToBase64\<close> has settled: call \<open>performSTT\<close>, or go to the \<open>catch\<close>.\<close>

definition afterBase64 :: "nat \<Rightarrow> error + jsstring \<Rightarrow> engine \<Rightarrow> engine" where
  "afterBase64 r res s =
     (case res of
        Inl e \<Rightarrow> catchBlock r e s
      | Inr base64Audio \<Rightarrow>
          emit [TranscribeAudio r base64Audio] (update_run r (\<lambda>x. x\<lparr>stage := AwaitSTT\<rparr>) s))"

text \<open>
  \<open>blink.ai.transcribeAudio\<close> has settled at time \<open>now\<close>. A failure is logged by
  \<open>performSTT\<close>, thrown again and caught by the caller.
\<close>

definition afterSTT :: "nat \<Rightarrow> real \<Rightarrow> error + jsstring \<Rightarrow> engine \<Rightarrow> engine" where
  "afterSTT r now res s =
     (case res of
        Inl e \<Rightarrow> catchBlock r e (emit [ConsoleError r ''STT processing failed:'' e] s)
      | Inr text \<Rightarrow>
          if currentProcessingId s \<noteq> Some (processingId (runs s ! r))
          then finallyBlock r (emit [ConsoleLog ''Processing interrupted, discarding result''] s)
          else
            let s1 = update_run r (\<lambda>x. x\<lparr>sttTime := now - startTime x\<rparr>) s
            in if trim text = [] \<or> length text < 3
               then finallyBlock r
                      (emit [ConsoleLog ''Skipping empty or very short transcription''] s1)
               else emit [GenerateText r text]
                      (update_run r (\<lambda>x. x\<lparr>gptStartTime := now, stage := AwaitGPT\<rparr>) s1))"

text \<open>\<open>blink.ai.generateText\<close> has settled at time \<open>now\<close>.\<close>

definition afterGPT :: "nat \<Rightarrow> real \<Rightarrow> error + jsstring \<Rightarrow> engine \<Rightarrow> engine" where
  "afterGPT r now res s =
     (case res of
        Inl e \<Rightarrow> catchBlock r e (emit [ConsoleError r ''GPT processing failed:'' e] s)
      | Inr response \<Rightarrow>
          let s1 = update_run r (\<lambda>x. x\<lparr>gptTime := now - gptStartTime x\<rparr>) s
          in if currentProcessingId s1 \<noteq> Some (processingId (runs s1 ! r))
             then finallyBlock r (emit [ConsoleLog ''Processing interrupted before TTS''] s1)
             else emit [GenerateSpeech r response]
                    (update_run r (\<lambda>x. x\<lparr>ttsStartTime := now, stage := AwaitSpeech\<rparr>) s1))"

text \<open>
  \<open>playAudioWithInterruption\<close>, called by run \<open>r\<close>: a new element, stored in
  \<open>currentAudio\<close>, and \<open>audio.play()\<close>, which starts the playback (the element is no
  longer paused). The run then waits for the element.
\<close>

definition playAudioWithInterruption :: "nat \<Rightarrow> jsstring \<Rightarrow> engine \<Rightarrow> engine" where
  "playAudioWithInterruption r audioUrl s =
     (let a = length (audios s)
      in emit [AudioPlay r a]
           (update_run r (\<lambda>x. x\<lparr>stage := AwaitPlayback a\<rparr>)
              (s\<lparr>audios := audios s @ [\<lparr>src = audioUrl, paused = False, owner = r\<rparr>],
                 currentAudio := Some a\<rparr>)))"

text \<open>
  The playback promise is rejected: \<open>performTTS\<close> logs and throws again, the caller
  catches.
\<close>

definition performTTSFailed :: "nat \<Rightarrow> error \<Rightarrow> engine \<Rightarrow> engine" where
  "performTTSFailed r e s =
     catchBlock r e (emit [ConsoleError r ''TTS processing failed:'' e] s)"

text \<open>\<open>blink.ai.generateSpeech\<close> has settled, inside \<open>performTTS\<close>.\<close>

definition afterSpeech :: "nat \<Rightarrow> error + jsstring \<Rightarrow> engine \<Rightarrow> engine" where
  "afterSpeech r res s =
     (case res of
        Inl e \<Rightarrow> performTTSFailed r e s
      | Inr url \<Rightarrow> playAudioWithInterruption r url s)"

text \<open>
  The playback promise is fulfilled at time \<open>now\<close>: \<open>performTTS\<close> returns, the
  latencies are logged.
\<close>

definition afterPlayback :: "nat \<Rightarrow> real \<Rightarrow> engine \<Rightarrow> engine" where
  "afterPlayback r now s =
     (let x = runs s ! r
      in finallyBlock r
           (emit [LogProcessingMetrics r (sttTime x) (gptTime x) (now - ttsStartTime x)
                    (now - startTime x)] s))"

text \<open>
  The handlers of an audio element. Each clears \<open>currentAudio\<close>, whichever element it
  holds, and settles the promise of the run that created the element; a promise that is
  already settled stays as it is. An element that has played to its end is paused.
\<close>

definition awaiting :: "nat \<Rightarrow> engine \<Rightarrow> bool" where
  "awaiting a s =
     (owner (audios s ! a) < length (runs s)
      \<and> stage (runs s ! owner (audios s ! a)) = AwaitPlayback a)"

definition onended :: "nat \<Rightarrow> real \<Rightarrow> engine \<Rightarrow> engine" where
  "onended a now s =
     (let s1 = s\<lparr>currentAudio := None,
                  audios := (audios s)[a := (audios s ! a)\<lparr>paused := True\<rparr>]\<rparr>
      in if awaiting a s1 then afterPlayback (owner (audios s1 ! a)) now s1 else s1)"

definition onerror :: "nat \<Rightarrow> engine \<Rightarrow> engine" where
  "onerror a s =
     (let s1 = s\<lparr>currentAudio := None\<rparr>
      in if awaiting a s1
         then performTTSFailed (owner (audios s1 ! a)) (Error ''Audio playback failed'') s1
         else s1)"

text \<open>The \<open>catch\<close> of \<open>audio.play()\<close>: the playback did not start.\<close>

definition playRejected :: "nat \<Rightarrow> error \<Rightarrow> engine \<Rightarrow> engine" where
  "playRejected a e s =
     (let s1 = s\<lparr>currentAudio := None,
                  audios := (audios s)[a := (audios s ! a)\<lparr>paused := True\<rparr>]\<rparr>
      in if awaiting a s1 then performTTSFailed (owner (audios s1 ! a)) e s1 else s1)"

section \<open>Events\<close>

text \<open>
  What the platform can deliver to the engine. A promise is settled once, for a run that
  waits for it; a timeout fires while it is pending; an element ends while it plays.
  Otherwise the event does not occur and the state stays.
\<close>

datatype event =
    AnimationFrame real blob bool
  | SilenceTimeout
  | DataAvailable blob
  | RecorderStopped nat real
  | Base64Settled nat "error + jsstring"
  | TranscribeSettled nat real "error + jsstring"
  | GenerateTextSettled nat real "error + jsstring"
  | GenerateSpeechSettled nat "error + jsstring"
  | PlayRejected nat error
  | AudioEnded nat real
  | AudioError nat
  | InterruptCurrentResponse

definition suspendedAt :: "nat \<Rightarrow> stage \<Rightarrow> engine \<Rightarrow> bool" where
  "suspendedAt r st s = (r < length (runs s) \<and> stage (runs s ! r) = st)"

fun step :: "event \<Rightarrow> engine \<Rightarrow> engine" where
  "step (AnimationFrame now dataArray startOk) s = detectActivity now dataArray startOk s"
| "step SilenceTimeout s = (if silenceTimer s = None then s else silenceTimerCallback s)"
| "step (DataAvailable chunk) s = ondataavailable chunk s"
| "step (RecorderStopped dateNow perfNow) s = onstop dateNow perfNow s"
| "step (Base64Settled r res) s = (if suspendedAt r AwaitBase64 s then afterBase64 r res s else s)"
| "step (TranscribeSettled r now res) s =
     (if suspendedAt r AwaitSTT s then afterSTT r now res s else s)"
| "step (GenerateTextSettled r now res) s =
     (if suspendedAt r AwaitGPT s then afterGPT r now res s else s)"
| "step (GenerateSpeechSettled r res) s =
     (if suspendedAt r AwaitSpeech s then afterSpeech r res s else s)"
| "step (PlayRejected a e) s = (if a < length (audios s) then playRejected a e s else s)"
| "step (AudioEnded a now) s =
     (if a < length (audios s) \<and> \<not> paused (audios s ! a) then onended a now s else s)"
| "step (AudioError a) s = (if a < length (audios s) then onerror a s else s)"
| "step InterruptCurrentResponse s = interruptCurrentResponse s"

fun exec :: "event list \<Rightarrow> engine \<Rightarrow> engine" where
  "exec [] s = s"
| "exec (e # es) s = exec es (step e s)"

text \<open>The engine after a successful \<open>initialize()\<close>.\<close>

definition initialized :: engine where
  "initialized =
     \<lparr> mediaRecorder = Some Inactive, analyser = True, isProcessing = False,
       silenceTimer = None, currentProcessingId = None, currentAudio = None,
       audioChunks = [], audios = [], runs = [], effects = [] \<rparr>"

section \<open>Simulated time\<close>

text \<open>
  A sample is an animation frame with its time. Before each sample the pending timeout
  fires if it is due; \<open>runUntil\<close> then lets the time pass to \<open>T\<close>.
\<close>

definition fireDue :: "real \<Rightarrow> engine \<Rightarrow> engine" where
  "fireDue t s =
     (case silenceTimer s of
        None \<Rightarrow> s
      | Some due \<Rightarrow> if due \<le> t then silenceTimerCallback s else s)"

fun simulate :: "(real \<times> blob \<times> bool) list \<Rightarrow> engine \<Rightarrow> engine" where
  "simulate [] s = s"
| "simulate ((t, dataArray, startOk) # samples) s =
     simulate samples (detectActivity t dataArray startOk (fireDue t s))"

definition runUntil :: "real \<Rightarrow> (real \<times> blob \<times> bool) list \<Rightarrow> engine \<Rightarrow> engine" where
  "runUntil T samples s = fireDue T (simulate samples s)"

section \<open>The dashboard\<close>

text \<open>
  The component \<open>VoiceInterface\<close> holds the engine and the interruption counter
  (\<open>metrics.interruptionCount\<close>). The engine has no reference to the component: a
  callback of the engine changes the engine only. \<open>interruptAgent\<close> is the handler of the
  Interrupt button.
\<close>

record VoiceInterface =
  voiceEngineRef :: "engine option"
  interruptionCount :: nat

definition interruptAgent :: "VoiceInterface \<Rightarrow> VoiceInterface" where
  "interruptAgent ui =
     (case voiceEngineRef ui of
        None \<Rightarrow> ui
      | Some e \<Rightarrow> ui\<lparr>voiceEngineRef := Some (interruptCurrentResponse e),
                     interruptionCount := interruptionCount ui + 1\<rparr>)"

definition engineEvent :: "event \<Rightarrow> VoiceInterface \<Rightarrow> VoiceInterface" where
  "engineEvent ev ui =
     (case voiceEngineRef ui of
        None \<Rightarrow> ui
      | Some e \<Rightarrow> ui\<lparr>voiceEngineRef := Some (step ev e)\<rparr>)"

section \<open>The effects of one run\<close>

datatype kind = Read | STT | GPT | TTS | Play | Metrics | Failure

fun effectRun :: "effect \<Rightarrow> nat option" where
  "effectRun (ReadAsDataURL r b) = Some r"
| "effectRun (TranscribeAudio r t) = Some r"
| "effectRun (GenerateText r t) = Some r"
| "effectRun (GenerateSpeech r t) = Some r"
| "effectRun (AudioPlay r a) = Some r"
| "effectRun (LogProcessingMetrics r a b c d) = Some r"
| "effectRun (ConsoleError r m e) = Some r"
| "effectRun (AudioPause a) = None"
| "effectRun (ConsoleLog m) = None"
| "effectRun RecorderStart = None"
| "effectRun RecorderStartFailed = None"
| "effectRun RecorderStop = None"

fun effectKind :: "effect \<Rightarrow> kind option" where
  "effectKind (ReadAsDataURL r b) = Some Read"
| "effectKind (TranscribeAudio r t) = Some STT"
| "effectKind (GenerateText r t) = Some GPT"
| "effectKind (GenerateSpeech r t) = Some TTS"
| "effectKind (AudioPlay r a) = Some Play"
| "effectKind (LogProcessingMetrics r a b c d) = Some Metrics"
| "effectKind (ConsoleError r m e) = Some Failure"
| "effectKind (AudioPause a) = None"
| "effectKind (ConsoleLog m) = None"
| "effectKind RecorderStart = None"
| "effectKind RecorderStartFailed = None"
| "effectKind RecorderStop = None"

text \<open>What run \<open>r\<close> has done so far, in order: only the kinds of its effects.\<close>

fun history :: "nat \<Rightarrow> effect list \<Rightarrow> kind list" where
  "history r [] = []"
| "history r (e # es) =
     (if effectRun e = Some r then (case effectKind e of None \<Rightarrow> [] | Some k \<Rightarrow> [k]) else [])
     @ history r es"

text \<open>How far a suspended run has come along Read, STT, GPT, TTS, Play.\<close>

fun progress :: "stage \<Rightarrow> nat" where
  "progress AwaitBase64 = 1"
| "progress AwaitSTT = 2"
| "progress AwaitGPT = 3"
| "progress AwaitSpeech = 4"
| "progress (AwaitPlayback a) = 5"
| "progress Returned = 0"

definition consistent :: "engine \<Rightarrow> bool" where
  "consistent s =
     ((\<forall>e \<in> set (effects s). \<forall>r. effectRun e = Some r \<longrightarrow> r < length (runs s))
      \<and> (\<forall>r < length (runs s). stage (runs s ! r) \<noteq> Returned \<longrightarrow>
            history r (effects s) = take (progress (stage (runs s ! r))) [Read, STT, GPT, TTS, Play]))"

text \<open>The number an id stands for.\<close>

definition fromString :: "jsstring \<Rightarrow> nat" where
  "fromString t = foldl (\<lambda>acc c. 10 * acc + unat (c - 48)) 0 t"

section \<open>Scenarios\<close>

text \<open>
  The user speaks and falls silent; 1500 ms later the timer stops the recorder, run 0
  starts with the id 1000 and its audio is sent to the transcription service.
\<close>

definition firstUtteranceSent :: "event list" where
  "firstUtteranceSent =
     [AnimationFrame 0 [255] True, DataAvailable [1, 2, 3], AnimationFrame 100 [0] True,
      SilenceTimeout, RecorderStopped 1000 1600, Base64Settled 0 (Inr (utf16 ''AQID''))]"

text \<open>
  The transcript arrives. While the reply is generated the user says one more word (the
  recorder starts: nothing is played yet), then the reply of run 0 is synthesized and
  played as element 0.
\<close>

definition firstReplyPlaying :: "event list" where
  "firstReplyPlaying =
     firstUtteranceSent @
     [TranscribeSettled 0 1700 (Inr (utf16 ''hello'')),
      AnimationFrame 1750 [255] True, DataAvailable [4, 5],
      GenerateTextSettled 0 1800 (Inr (utf16 ''hi'')),
      GenerateSpeechSettled 0 (Inr (utf16 ''u0''))]"

text \<open>
  The user is silent again: the timer stops the recorder while element 0 is still played,
  run 1 starts with the id 3400, passes both checks of its id and waits for its
  synthesized speech.
\<close>

definition overlappingTurns :: "event list" where
  "overlappingTurns =
     firstReplyPlaying @
     [AnimationFrame 1900 [0] True, SilenceTimeout, RecorderStopped 3400 3400,
      Base64Settled 1 (Inr (utf16 ''BAU='')),
      TranscribeSettled 1 3500 (Inr (utf16 ''wait'')),
      GenerateTextSettled 1 3600 (Inr (utf16 ''ok''))]"

section \<open>Auxiliary facts\<close>

lemmas handler_defs = detectActivity_def handleVoiceActivity_def handleSilence_def
  interruptCurrentResponse_def pauseAudio_def silenceTimerCallback_def ondataavailable_def
  onstop_def processAudioWithInterruption_def afterBase64_def afterSTT_def afterGPT_def
  afterSpeech_def playAudioWithInterruption_def performTTSFailed_def afterPlayback_def
  onended_def onerror_def playRejected_def awaiting_def suspendedAt_def
  finallyBlock_def catchBlock_def emit_def update_run_def audioPlaying_def

lemmas thresholds = SILENCE_THRESHOLD_def INTERRUPTION_THRESHOLD_def SILENCE_DURATION_def

subsection \<open>Snapshots with a known volume\<close>

lemma rms_loud: "rms [255] = 1"
  by (simp add: rms_def real_sqrt_unique)

lemma rms_quiet: "rms [0] = 0"
  by (simp add: rms_def)

lemma rms_between: "rms [5] = 1 / 51"
  by (simp add: rms_def real_sqrt_unique)

lemma sumSquares_append: "sumSquares (xs @ ys) = sumSquares xs + sumSquares ys"
  by (induction xs) auto

lemma sumBytes_append: "sumBytes (xs @ ys) = sumBytes xs + sumBytes ys"
  by (induction xs) auto

lemma sumSquares_replicate: "sumSquares (replicate n b) = n * (unat b * unat b)"
  by (induction n) auto

lemma sumBytes_replicate: "sumBytes (replicate n b) = n * unat b"
  by (induction n) auto

lemma sumBytes_sum_list: "sumBytes d = sum_list (map unat d)"
  by (induction d) auto

lemma byte_le: "unat (b :: 8 word) \<le> 255"
proof -
  have "unat b < 2 ^ LENGTH(8)" by (rule unsigned_less)
  then show ?thesis by simp
qed

lemma sumBytes_le: "sumBytes d \<le> 255 * length d"
proof (induction d)
  case Nil
  then show ?case by simp
next
  case (Cons b bs)
  then show ?case using byte_le [of b] by simp
qed

subsection \<open>The decimal digits determine the number\<close>

lemma fromString_toString: "fromString (toString n) = n"
proof (induction n rule: toString.induct)
  case (1 n)
  show ?case
  proof (cases "n < 10")
    case True
    then show ?thesis by (subst toString.simps) (simp add: fromString_def unat_of_nat)
  next
    case False
    with 1 have "fromString (toString (n div 10)) = n div 10" by simp
    moreover have "unat (of_nat (n mod 10) :: 16 word) = n mod 10" by (simp add: unat_of_nat)
    ultimately show ?thesis using False
      by (subst toString.simps) (simp add: fromString_def)
  qed
qed

lemma toString_inj: "toString a = toString b \<longleftrightarrow> a = b"
  by (metis fromString_toString)

subsection \<open>The mean of a snapshot is at most its root mean square\<close>

lemma two_xy: "2 * (x::nat) * y \<le> x * x + y * y"
proof -
  have "0 \<le> (int x - int y) * (int x - int y)" by simp
  then have "2 * int x * int y \<le> int x * int x + int y * int y" by (simp add: algebra_simps)
  then show ?thesis by (metis (mono_tags) of_nat_add of_nat_le_iff of_nat_mult of_nat_numeral)
qed

lemma cross_le: "2 * u * sumBytes d \<le> length d * (u * u) + sumSquares d"
proof (induction d)
  case Nil
  then show ?case by simp
next
  case (Cons b bs)
  have "2 * u * unat b \<le> u * u + unat b * unat b" by (rule two_xy)
  with Cons show ?case by (simp add: algebra_simps)
qed

lemma sumBytes_sq_le: "sumBytes d * sumBytes d \<le> length d * sumSquares d"
proof (induction d)
  case Nil
  then show ?case by simp
next
  case (Cons b bs)
  have "2 * unat b * sumBytes bs \<le> length bs * (unat b * unat b) + sumSquares bs"
    by (rule cross_le)
  with Cons show ?case by (simp add: algebra_simps)
qed

lemma mean_le_rms:
  assumes "d \<noteq> []"
  shows "real (sumBytes d) / real (length d) / 255 \<le> rms d"
proof -
  let ?n = "real (length d)" and ?S = "real (sumBytes d)" and ?Q = "real (sumSquares d)"
  have n: "0 < ?n" using assms by simp
  have "?S * ?S \<le> ?n * ?Q"
    using sumBytes_sq_le [of d] by (metis of_nat_le_iff of_nat_mult)
  then have "(?S / ?n)\<^sup>2 \<le> ?Q / ?n"
    using n by (simp add: power2_eq_square field_simps)
  then have "?S / ?n \<le> sqrt (?Q / ?n)" by (rule real_le_rsqrt)
  then show ?thesis by (simp add: rms_def divide_right_mono)
qed

subsection \<open>Silent samples while recording\<close>

text \<open>
  While only silent samples arrive, either the recorder has been stopped once, or it
  still records and a timeout is pending that is due by \<open>T\<close>.
\<close>

lemma silent_not_loud: "rms d < SILENCE_THRESHOLD \<Longrightarrow> \<not> INTERRUPTION_THRESHOLD < rms d"
  by (simp add: thresholds)

lemma silent_sample_keeps:
  assumes "rms d < SILENCE_THRESHOLD"
    and "(mediaRecorder s = Some Inactive \<and> count_list (effects s) RecorderStop = Suc c)
       \<or> (mediaRecorder s = Some Recording \<and> count_list (effects s) RecorderStop = c
          \<and> (\<exists>due. silenceTimer s = Some due \<and> due \<le> T))"
  shows "(mediaRecorder (detectActivity t d ok (fireDue t s)) = Some Inactive
          \<and> count_list (effects (detectActivity t d ok (fireDue t s))) RecorderStop = Suc c)
       \<or> (mediaRecorder (detectActivity t d ok (fireDue t s)) = Some Recording
          \<and> count_list (effects (detectActivity t d ok (fireDue t s))) RecorderStop = c
          \<and> (\<exists>due. silenceTimer (detectActivity t d ok (fireDue t s)) = Some due \<and> due \<le> T))"
  using assms silent_not_loud [OF assms(1)]
  by (auto simp: detectActivity_def handleSilence_def fireDue_def silenceTimerCallback_def
      emit_def split: option.splits)

lemma simulate_silent_keeps:
  assumes "\<forall>x \<in> set samples. rms (fst (snd x)) < SILENCE_THRESHOLD"
    and "(mediaRecorder s = Some Inactive \<and> count_list (effects s) RecorderStop = Suc c)
       \<or> (mediaRecorder s = Some Recording \<and> count_list (effects s) RecorderStop = c
          \<and> (\<exists>due. silenceTimer s = Some due \<and> due \<le> T))"
  shows "(mediaRecorder (simulate samples s) = Some Inactive
          \<and> count_list (effects (simulate samples s)) RecorderStop = Suc c)
       \<or> (mediaRecorder (simulate samples s) = Some Recording
          \<and> count_list (effects (simulate samples s)) RecorderStop = c
          \<and> (\<exists>due. silenceTimer (simulate samples s) = Some due \<and> due \<le> T))"
  using assms
proof (induction samples arbitrary: s)
  case Nil
  then show ?case by simp
next
  case (Cons x xs)
  obtain t d ok where x: "x = (t, d, ok)" by (cases x) auto
  from Cons.prems(1) x have d: "rms d < SILENCE_THRESHOLD" by simp
  have "\<forall>x\<in>set xs. rms (fst (snd x)) < SILENCE_THRESHOLD" using Cons.prems(1) by simp
  then show ?case
    unfolding x simulate.simps
    by (rule Cons.IH) (rule silent_sample_keeps [OF d Cons.prems(2)])
qed

lemma first_silent_sample:
  assumes "analyser s" and "mediaRecorder s = Some Recording"
    and "\<forall>due. silenceTimer s = Some due \<longrightarrow> due \<le> t0 + SILENCE_DURATION"
    and "rms d < SILENCE_THRESHOLD"
  shows "(mediaRecorder (detectActivity t0 d ok (fireDue t0 s)) = Some Inactive
          \<and> count_list (effects (detectActivity t0 d ok (fireDue t0 s))) RecorderStop
              = Suc (count_list (effects s) RecorderStop))
       \<or> (mediaRecorder (detectActivity t0 d ok (fireDue t0 s)) = Some Recording
          \<and> count_list (effects (detectActivity t0 d ok (fireDue t0 s))) RecorderStop
              = count_list (effects s) RecorderStop
          \<and> (\<exists>due. silenceTimer (detectActivity t0 d ok (fireDue t0 s)) = Some due
                \<and> due \<le> t0 + SILENCE_DURATION))"
  using assms silent_not_loud [OF assms(4)]
  by (auto simp: detectActivity_def handleSilence_def fireDue_def silenceTimerCallback_def
      emit_def split: option.splits)

lemma silence_stops_recording:
  assumes "analyser s" and "mediaRecorder s = Some Recording"
    and "\<forall>due. silenceTimer s = Some due \<longrightarrow> due \<le> t0 + SILENCE_DURATION"
    and "samples = (t0, d0, ok0) # rest"
    and "\<forall>x \<in> set samples. rms (fst (snd x)) < SILENCE_THRESHOLD"
  shows "mediaRecorder (runUntil (t0 + SILENCE_DURATION) samples s) = Some Inactive
       \<and> count_list (effects (runUntil (t0 + SILENCE_DURATION) samples s)) RecorderStop
           = Suc (count_list (effects s) RecorderStop)"
proof -
  define s2 where "s2 = simulate rest (detectActivity t0 d0 ok0 (fireDue t0 s))"
  have d0: "rms d0 < SILENCE_THRESHOLD"
    and rest: "\<forall>x \<in> set rest. rms (fst (snd x)) < SILENCE_THRESHOLD"
    using assms(4,5) by auto
  have sim: "simulate samples s = s2" by (simp add: assms(4) s2_def)
  have "(mediaRecorder s2 = Some Inactive
          \<and> count_list (effects s2) RecorderStop = Suc (count_list (effects s) RecorderStop))
       \<or> (mediaRecorder s2 = Some Recording
          \<and> count_list (effects s2) RecorderStop = count_list (effects s) RecorderStop
          \<and> (\<exists>due. silenceTimer s2 = Some due \<and> due \<le> t0 + SILENCE_DURATION))"
    unfolding s2_def
    by (rule simulate_silent_keeps [OF rest first_silent_sample [OF assms(1,2,3) d0]])
  then show ?thesis
    unfolding runUntil_def sim
    by (auto simp: fireDue_def silenceTimerCallback_def emit_def split: option.splits)
qed

text \<open>
  Only the samples and the timeout decide the recorder, the timer and the analyser: no
  other event changes them, wherever it falls between the samples.
\<close>

lemma other_events_keep_detection_state:
  assumes "\<forall>t d ok. e \<noteq> AnimationFrame t d ok" and "e \<noteq> SilenceTimeout"
  shows "mediaRecorder (step e s) = mediaRecorder s \<and> silenceTimer (step e s) = silenceTimer s
       \<and> analyser (step e s) = analyser s"
  using assms
  by (cases e) (auto simp: handler_defs Let_def split: sum.splits option.splits)

lemma loud_sample:
  assumes "analyser s" and "INTERRUPTION_THRESHOLD < rms d"
  shows "silenceTimer (detectActivity now d ok s) = None
       \<and> (mediaRecorder s = Some Inactive \<longrightarrow>
            count_list (effects (detectActivity now d ok s)) RecorderStart
              = Suc (count_list (effects s) RecorderStart)
            \<and> (ok \<longrightarrow> mediaRecorder (detectActivity now d ok s) = Some Recording))"
  using assms
  by (auto simp: handler_defs Let_def split: option.splits)

subsection \<open>Runs\<close>

lemma history_append: "history r (xs @ ys) = history r xs @ history r ys"
  by (induction xs) auto

lemma history_fresh:
  "\<forall>e \<in> set es. \<forall>r. effectRun e = Some r \<longrightarrow> r < n \<Longrightarrow> history n es = []"
  by (induction es) auto

lemma returned_inert:
  assumes "suspendedAt r Returned s"
  shows "suspendedAt r Returned (step e s) \<and> history r (effects (step e s)) = history r (effects s)"
  using assms
  by (cases e) (auto simp: handler_defs Let_def history_append nth_list_update nth_append
      split: sum.splits option.splits)

lemma returned_inert_exec:
  assumes "suspendedAt r Returned s"
  shows "suspendedAt r Returned (exec evs s) \<and> history r (effects (exec evs s)) = history r (effects s)"
  using assms
proof (induction evs arbitrary: s)
  case Nil
  then show ?case by simp
next
  case (Cons e evs)
  from returned_inert [OF Cons.prems, of e]
  have a: "suspendedAt r Returned (step e s)"
    and b: "history r (effects (step e s)) = history r (effects s)" by simp_all
  from Cons.IH [OF a] b show ?case by simp
qed

lemma processingId_step:
  assumes "r < length (runs s)"
  shows "r < length (runs (step e s)) \<and> processingId (runs (step e s) ! r) = processingId (runs s ! r)"
  using assms
  by (cases e) (auto simp: handler_defs Let_def nth_list_update nth_append
      split: sum.splits option.splits)

lemma processingId_exec:
  assumes "r < length (runs s)"
  shows "r < length (runs (exec evs s)) \<and> processingId (runs (exec evs s) ! r) = processingId (runs s ! r)"
  using assms
proof (induction evs arbitrary: s)
  case Nil
  then show ?case by simp
next
  case (Cons e evs)
  from processingId_step [OF Cons.prems, of e]
  have a: "r < length (runs (step e s))"
    and b: "processingId (runs (step e s) ! r) = processingId (runs s ! r)" by simp_all
  from Cons.IH [OF a] b show ?case by simp
qed

lemma consistent_initialized: "consistent initialized"
  by (simp add: consistent_def initialized_def)

lemma consistent_step:
  assumes "consistent s"
  shows "consistent (step e s)"
proof (cases e)
  case (RecorderStopped dn pn)
  have fresh: "history (length (runs s)) (effects s) = []"
    using assms by (intro history_fresh) (auto simp: consistent_def)
  show ?thesis using assms fresh unfolding RecorderStopped
    by (auto simp: consistent_def handler_defs Let_def history_append nth_append less_Suc_eq)
next
  case (AnimationFrame t d ok)
  then show ?thesis using assms
    by (auto simp: consistent_def handler_defs Let_def history_append split: option.splits)
next
  case SilenceTimeout
  then show ?thesis using assms
    by (auto simp: consistent_def handler_defs Let_def history_append split: option.splits)
next
  case (DataAvailable b)
  then show ?thesis using assms
    by (auto simp: consistent_def handler_defs Let_def history_append split: option.splits)
next
  case (Base64Settled r res)
  then show ?thesis using assms
    by (auto simp: consistent_def handler_defs Let_def history_append nth_list_update
        split: sum.splits)
next
  case (TranscribeSettled r now res)
  then show ?thesis using assms
    by (auto simp: consistent_def handler_defs Let_def history_append nth_list_update
        split: sum.splits)
next
  case (GenerateTextSettled r now res)
  then show ?thesis using assms
    by (auto simp: consistent_def handler_defs Let_def history_append nth_list_update
        split: sum.splits)
next
  case (GenerateSpeechSettled r res)
  then show ?thesis using assms
    by (auto simp: consistent_def handler_defs Let_def history_append nth_list_update nth_append
        split: sum.splits)
next
  case (PlayRejected a e)
  then show ?thesis using assms
    by (auto simp: consistent_def handler_defs Let_def history_append nth_list_update
        split: sum.splits)
next
  case (AudioEnded a now)
  then show ?thesis using assms
    by (auto simp: consistent_def handler_defs Let_def history_append nth_list_update
        split: sum.splits)
next
  case (AudioError a)
  then show ?thesis using assms
    by (auto simp: consistent_def handler_defs Let_def history_append nth_list_update
        split: sum.splits)
next
  case InterruptCurrentResponse
  then show ?thesis using assms
    by (auto simp: consistent_def handler_defs Let_def history_append split: option.splits)
qed

lemma consistent_exec: "consistent s \<Longrightarrow> consistent (exec evs s)"
  by (induction evs arbitrary: s) (auto simp: consistent_step)

lemma suspended_history:
  assumes "suspendedAt r st (exec before initialized)" and "st \<noteq> Returned"
  shows "history r (effects (exec before initialized)) = take (progress st) [Read, STT, GPT, TTS, Play]"
  using consistent_exec [OF consistent_initialized, of before] assms
  by (auto simp: consistent_def suspendedAt_def)

text \<open>
  A run whose id is no longer the current one when its transcript or its reply arrives
  returns there, and never does anything more.
\<close>

lemma stale_result_discarded_before_speech:
  assumes "suspendedAt r st (exec before initialized)"
    and "currentProcessingId (exec before initialized)
           \<noteq> Some (processingId (runs (exec before initialized) ! r))"
    and "(st = AwaitSTT \<and> ev = TranscribeSettled r now (Inr text))
       \<or> (st = AwaitGPT \<and> ev = GenerateTextSettled r now (Inr text))"
  shows "stage (runs (step ev (exec before initialized)) ! r) = Returned
       \<and> (\<forall>after. history r (effects (exec after (step ev (exec before initialized))))
            = take (progress st) [Read, STT, GPT, TTS, Play])"
proof -
  define s where "s = exec before initialized"
  define s' where "s' = step ev s"
  have sus: "suspendedAt r st s" using assms(1) by (simp add: s_def)
  have stale: "currentProcessingId s \<noteq> Some (processingId (runs s ! r))"
    using assms(2) by (simp add: s_def)
  have nr: "st \<noteq> Returned" using assms(3) by auto
  have h: "history r (effects s) = take (progress st) [Read, STT, GPT, TTS, Play]"
    using suspended_history [OF assms(1) nr] by (simp add: s_def)
  have ret: "suspendedAt r Returned s'" and h': "history r (effects s') = history r (effects s)"
    using sus stale assms(3) unfolding s'_def
    by (auto simp: handler_defs Let_def history_append)
  have "\<forall>after. history r (effects (exec after s'))
          = take (progress st) [Read, STT, GPT, TTS, Play]"
    using returned_inert_exec [OF ret] h' h by simp
  with ret show ?thesis unfolding s'_def s_def by (simp add: suspendedAt_def)
qed

text \<open>
  In every state, \<open>playAudioWithInterruption\<close> makes the new element the handle and
  starts it, and leaves every earlier element as it is: it pauses none.
\<close>

lemma playAudio_leaves_earlier_elements:
  "currentAudio (playAudioWithInterruption r audioUrl s) = Some (length (audios s))
   \<and> \<not> paused (audios (playAudioWithInterruption r audioUrl s) ! length (audios s))
   \<and> take (length (audios s)) (audios (playAudioWithInterruption r audioUrl s)) = audios s
   \<and> effects (playAudioWithInterruption r audioUrl s)
       = effects s @ [AudioPlay r (length (audios s))]"
  by (simp add: playAudioWithInterruption_def emit_def update_run_def Let_def nth_append)

lemma exec_append: "exec (xs @ ys) s = exec ys (exec xs s)"
  by (induction xs arbitrary: s) auto

lemmas eval_simps = handler_defs Let_def rms_loud rms_quiet rms_between thresholds toString_inj
  initialized_def trim_def isWhiteSpace_def utf16_def fireDue_def runUntil_def
  firstUtteranceSent_def firstReplyPlaying_def overlappingTurns_def

section \<open>Theorems\<close>

text \<open>
  C10. \<open>getProcessingState()\<close> returns \<open>interruptionDetected = false\<close> in every state of
  the engine, whatever the snapshot: also while an interruption is being handled.
\<close>

theorem getProcessingState_interruptionDetected:
  "interruptionDetected (getProcessingState dataArray s) = False"
  by (simp add: getProcessingState_def)

text \<open>
  C6. A sampling tick whose RMS volume is above the silence threshold (0.01) and at most
  the interruption threshold (0.05) does nothing: the whole state of the engine is the
  same after it, so no speech handling takes place, the silence timer is neither armed
  nor cleared, the recorder keeps its state and nothing is done to the outside world.
\<close>

theorem detectActivity_gap:
  "SILENCE_THRESHOLD < rms dataArray \<and> rms dataArray \<le> INTERRUPTION_THRESHOLD
   \<Longrightarrow> detectActivity now dataArray startOk s = s"
  by (simp add: detectActivity_def)

theorem detectActivity_gap_witness:
  "SILENCE_THRESHOLD < rms [5] \<and> rms [5] \<le> INTERRUPTION_THRESHOLD
   \<and> silenceTimer (exec [AnimationFrame 0 [255] True, AnimationFrame 16 [0] True] initialized)
       = Some 1516
   \<and> detectActivity 32 [5] True
        (exec [AnimationFrame 0 [255] True, AnimationFrame 16 [0] True] initialized)
       = exec [AnimationFrame 0 [255] True, AnimationFrame 16 [0] True] initialized"
  using detectActivity_gap [of "[5]" 32 True
      "exec [AnimationFrame 0 [255] True, AnimationFrame 16 [0] True] initialized"]
  by (simp add: eval_simps)

text \<open>
  C5. For every state of the engine with an analyser and every sample: a sample above
  0.05 leaves no silence timer pending and, when the recorder is inactive, starts it: the
  engine calls the recorder's start once, and the recorder records unless the platform
  refuses the call. And for every sequence of samples in time order that starts at \<open>t0\<close>,
  lasts at most 1500 ms and has every volume below 0.01, received while the recorder
  records (a timeout that is already pending being due within these 1500 ms): when the
  time reaches \<open>t0 + 1500\<close> the timer has fired and has stopped the recorder, exactly
  once.
\<close>

theorem vad_transitions:
  "(analyser s \<and> INTERRUPTION_THRESHOLD < rms dataArray \<longrightarrow>
      silenceTimer (detectActivity now dataArray startOk s) = None
      \<and> (mediaRecorder s = Some Inactive \<longrightarrow>
           count_list (effects (detectActivity now dataArray startOk s)) RecorderStart
             = Suc (count_list (effects s) RecorderStart)
           \<and> (startOk \<longrightarrow>
                mediaRecorder (detectActivity now dataArray startOk s) = Some Recording)))
   \<and> (analyser s \<and> mediaRecorder s = Some Recording
       \<and> (\<forall>due. silenceTimer s = Some due \<longrightarrow> due \<le> t0 + SILENCE_DURATION)
       \<and> samples = (t0, d0, ok0) # rest
       \<and> sorted (map fst samples)
       \<and> (\<forall>x \<in> set samples. fst x \<le> t0 + SILENCE_DURATION
              \<and> rms (fst (snd x)) < SILENCE_THRESHOLD) \<longrightarrow>
      mediaRecorder (runUntil (t0 + SILENCE_DURATION) samples s) = Some Inactive
      \<and> count_list (effects (runUntil (t0 + SILENCE_DURATION) samples s)) RecorderStop
          = Suc (count_list (effects s) RecorderStop))"
proof (intro conjI impI)
  assume "analyser s \<and> INTERRUPTION_THRESHOLD < rms dataArray"
  then show "silenceTimer (detectActivity now dataArray startOk s) = None"
    using loud_sample [of s dataArray now startOk] by simp
next
  assume "analyser s \<and> INTERRUPTION_THRESHOLD < rms dataArray"
    and "mediaRecorder s = Some Inactive"
  then show "count_list (effects (detectActivity now dataArray startOk s)) RecorderStart
             = Suc (count_list (effects s) RecorderStart)"
    using loud_sample [of s dataArray now startOk] by simp
next
  assume "analyser s \<and> INTERRUPTION_THRESHOLD < rms dataArray"
    and "mediaRecorder s = Some Inactive" and "startOk"
  then show "mediaRecorder (detectActivity now dataArray startOk s) = Some Recording"
    using loud_sample [of s dataArray now startOk] by simp
next
  assume h: "analyser s \<and> mediaRecorder s = Some Recording
       \<and> (\<forall>due. silenceTimer s = Some due \<longrightarrow> due \<le> t0 + SILENCE_DURATION)
       \<and> samples = (t0, d0, ok0) # rest
       \<and> sorted (map fst samples)
       \<and> (\<forall>x \<in> set samples. fst x \<le> t0 + SILENCE_DURATION
              \<and> rms (fst (snd x)) < SILENCE_THRESHOLD)"
  then have silent: "\<forall>x \<in> set samples. rms (fst (snd x)) < SILENCE_THRESHOLD" by blast
  from h silent
  have r: "mediaRecorder (runUntil (t0 + SILENCE_DURATION) samples s) = Some Inactive
       \<and> count_list (effects (runUntil (t0 + SILENCE_DURATION) samples s)) RecorderStop
           = Suc (count_list (effects s) RecorderStop)"
    by (intro silence_stops_recording [of s t0 samples d0 ok0 rest]) blast+
  from r show "mediaRecorder (runUntil (t0 + SILENCE_DURATION) samples s) = Some Inactive" ..
  from r show "count_list (effects (runUntil (t0 + SILENCE_DURATION) samples s)) RecorderStop
           = Suc (count_list (effects s) RecorderStop)" ..
qed

theorem vad_transitions_witness:
  "INTERRUPTION_THRESHOLD < rms [255]
   \<and> mediaRecorder (exec [AnimationFrame 0 [255] True, AnimationFrame 16 [0] True] initialized)
       = Some Recording
   \<and> silenceTimer (exec [AnimationFrame 0 [255] True, AnimationFrame 16 [0] True] initialized)
       = Some 1516
   \<and> silenceTimer (detectActivity 32 [255] True
        (exec [AnimationFrame 0 [255] True, AnimationFrame 16 [0] True] initialized)) = None
   \<and> mediaRecorder initialized = Some Inactive
   \<and> mediaRecorder (detectActivity 0 [255] True initialized) = Some Recording
   \<and> effects (detectActivity 0 [255] True initialized) = [RecorderStart]
   \<and> rms [0] < SILENCE_THRESHOLD
   \<and> mediaRecorder (runUntil (16 + SILENCE_DURATION)
        [(16, [0], True), (700, [0], True), (1516, [0], True)]
        (detectActivity 0 [255] True initialized)) = Some Inactive
   \<and> count_list (effects (runUntil (16 + SILENCE_DURATION)
        [(16, [0], True), (700, [0], True), (1516, [0], True)]
        (detectActivity 0 [255] True initialized))) RecorderStop = 1"
  using vad_transitions [of "exec [AnimationFrame 0 [255] True, AnimationFrame 16 [0] True] initialized"
      "[255]" 32 True 0 "[]" "[]" True "[]"]
    vad_transitions [of initialized "[255]" 0 True 0 "[]" "[]" True "[]"]
    vad_transitions [of "detectActivity 0 [255] True initialized" "[255]" 0 True 16
      "[(16, [0], True), (700, [0], True), (1516, [0], True)]" "[0]" True
      "[(700, [0], True), (1516, [0], True)]"]
  by (simp add: eval_simps)

text \<open>
  C9, as amended. For every snapshot that is not empty, the exposed current volume is in
  [0, 1] and is the arithmetic mean of the snapshot divided by 255 (0 when the engine has
  no analyser). This is not the formula of the detection loop, which takes the root mean
  square; the exposed volume is never above that one.
\<close>

theorem getCurrentVolume_mean:
  "dataArray \<noteq> [] \<Longrightarrow>
     0 \<le> getCurrentVolume dataArray s \<and> getCurrentVolume dataArray s \<le> 1
     \<and> getCurrentVolume dataArray s
         = (if analyser s
            then real (sum_list (map unat dataArray)) / real (length dataArray) / 255
            else 0)
     \<and> getCurrentVolume dataArray s \<le> rms dataArray"
proof -
  assume ne: "dataArray \<noteq> []"
  let ?m = "real (sumBytes dataArray) / real (length dataArray) / 255"
  have pos: "0 < real (length dataArray)" using ne by simp
  have "real (sumBytes dataArray) \<le> 255 * real (length dataArray)"
    using sumBytes_le [of dataArray] by (metis of_nat_le_iff of_nat_mult of_nat_numeral)
  then have "real (sumBytes dataArray) / real (length dataArray) \<le> 255"
    using pos by (simp add: pos_divide_le_eq)
  then have range: "0 \<le> ?m \<and> ?m \<le> 1" by simp
  have le: "?m \<le> rms dataArray" by (rule mean_le_rms [OF ne])
  have "0 \<le> rms dataArray" by (simp add: rms_def)
  with range le show ?thesis
    by (simp add: getCurrentVolume_def sumBytes_sum_list)
qed

theorem getCurrentVolume_mean_witness:
  "replicate 768 0 @ replicate 256 (4 :: 8 word) \<noteq> []
   \<and> getCurrentVolume (replicate 768 0 @ replicate 256 4) initialized = 1 / 255
   \<and> getCurrentVolume (replicate 768 0 @ replicate 256 4) initialized
       \<le> rms (replicate 768 0 @ replicate 256 4)"
  using getCurrentVolume_mean [of "replicate 768 0 @ replicate 256 4" initialized]
  by (simp add: initialized_def sum_list_replicate)

text \<open>
  C9 as stated fails: on a snapshot of 1024 bins, 256 of them at 4 and the others at 0,
  the exposed volume is 1/255 and the volume of the detection loop is 2/255.
\<close>

theorem getCurrentVolume_rms_counterexample:
  "getCurrentVolume (replicate 768 0 @ replicate 256 4) initialized = 1 / 255
   \<and> rms (replicate 768 0 @ replicate 256 4) = 2 / 255
   \<and> getCurrentVolume (replicate 768 0 @ replicate 256 4) initialized
       \<noteq> rms (replicate 768 0 @ replicate 256 4)"
proof -
  have "sqrt 4 = 2" by (simp add: real_sqrt_unique)
  then show ?thesis
    by (simp add: getCurrentVolume_def rms_def initialized_def sumBytes_append
        sumSquares_append sumBytes_replicate sumSquares_replicate)
qed

text \<open>
  C7. In every state the engine can reach from its initialization, for every run that
  waits for its transcript: when the transcript is empty after trimming, or shorter than
  3 characters, the run returns without an error and the processing flag is reset; and
  whatever happens afterwards, all the run ever did is to read the recording and to call
  the transcription service: no reply generation, no speech synthesis, no playback, no
  latency record and no error log.
\<close>

theorem short_transcription_stops:
  assumes "suspendedAt r AwaitSTT (exec before initialized)"
    and "trim text = [] \<or> length text < 3"
  shows "stage (runs (step (TranscribeSettled r now (Inr text)) (exec before initialized)) ! r)
           = Returned
       \<and> \<not> engine.isProcessing (step (TranscribeSettled r now (Inr text)) (exec before initialized))
       \<and> (\<forall>after. history r (effects (exec after
              (step (TranscribeSettled r now (Inr text)) (exec before initialized))))
            = [Read, STT])"
proof -
  define s where "s = exec before initialized"
  define s' where "s' = step (TranscribeSettled r now (Inr text)) s"
  have h: "history r (effects s) = [Read, STT]"
    using suspended_history [OF assms(1)] by (simp add: s_def)
  have sus: "suspendedAt r AwaitSTT s" using assms(1) by (simp add: s_def)
  have ret: "suspendedAt r Returned s'" and h': "history r (effects s') = history r (effects s)"
    and np: "\<not> engine.isProcessing s'"
    using sus assms(2) unfolding s'_def
    by (auto simp: handler_defs Let_def history_append)
  have "\<forall>after. history r (effects (exec after s')) = [Read, STT]"
    using returned_inert_exec [OF ret] h' h by simp
  with ret np show ?thesis unfolding s'_def s_def by (simp add: suspendedAt_def)
qed

theorem short_transcription_stops_witness:
  "suspendedAt 0 AwaitSTT (exec firstUtteranceSent initialized)
   \<and> trim (utf16 ''    '') = []
   \<and> stage (runs (step (TranscribeSettled 0 1700 (Inr (utf16 ''    '')))
        (exec firstUtteranceSent initialized)) ! 0) = Returned
   \<and> history 0 (effects (exec [GenerateTextSettled 0 1800 (Inr (utf16 ''hi''))]
        (step (TranscribeSettled 0 1700 (Inr (utf16 ''    '')))
          (exec firstUtteranceSent initialized)))) = [Read, STT]
   \<and> length (utf16 ''ok'') < 3
   \<and> history 0 (effects (exec [GenerateTextSettled 0 1800 (Inr (utf16 ''hi''))]
        (step (TranscribeSettled 0 1700 (Inr (utf16 ''ok'')))
          (exec firstUtteranceSent initialized)))) = [Read, STT]"
  using short_transcription_stops [of 0 firstUtteranceSent "utf16 ''    ''" 1700]
    short_transcription_stops [of 0 firstUtteranceSent "utf16 ''ok''" 1700]
  by (simp add: eval_simps)

text \<open>
  C8. In every state the engine can reach from its initialization, for every run that
  waits for the transcription, the reply generation or the speech synthesis: when the
  call fails, the run returns (nothing is thrown to its caller), the processing flag is
  reset and the recorder, the analyser, the timer, the playback handle, the current id
  and the recorded chunks are as before; and whatever happens afterwards, all the run
  ever did is one call of each service up to the one that failed, followed by the two
  error logs: no call is made a second time.
\<close>

theorem service_failure_contained:
  assumes "suspendedAt r st (exec before initialized)"
    and "(st = AwaitSTT \<and> ev = TranscribeSettled r now (Inl e))
       \<or> (st = AwaitGPT \<and> ev = GenerateTextSettled r now (Inl e))
       \<or> (st = AwaitSpeech \<and> ev = GenerateSpeechSettled r (Inl e))"
  shows "stage (runs (step ev (exec before initialized)) ! r) = Returned
       \<and> \<not> engine.isProcessing (step ev (exec before initialized))
       \<and> mediaRecorder (step ev (exec before initialized)) = mediaRecorder (exec before initialized)
       \<and> analyser (step ev (exec before initialized)) = analyser (exec before initialized)
       \<and> silenceTimer (step ev (exec before initialized)) = silenceTimer (exec before initialized)
       \<and> currentAudio (step ev (exec before initialized)) = currentAudio (exec before initialized)
       \<and> currentProcessingId (step ev (exec before initialized))
           = currentProcessingId (exec before initialized)
       \<and> audioChunks (step ev (exec before initialized)) = audioChunks (exec before initialized)
       \<and> (\<forall>after. history r (effects (exec after (step ev (exec before initialized))))
            = take (progress st) [Read, STT, GPT, TTS, Play] @ [Failure, Failure])"
proof -
  define s where "s = exec before initialized"
  define s' where "s' = step ev s"
  have sus: "suspendedAt r st s" using assms(1) by (simp add: s_def)
  have nr: "st \<noteq> Returned" using assms(2) by auto
  have h: "history r (effects s) = take (progress st) [Read, STT, GPT, TTS, Play]"
    using suspended_history [OF assms(1) nr] by (simp add: s_def)
  have ret: "suspendedAt r Returned s'"
    and h': "history r (effects s') = history r (effects s) @ [Failure, Failure]"
    and fields: "\<not> engine.isProcessing s'" "mediaRecorder s' = mediaRecorder s"
      "analyser s' = analyser s" "silenceTimer s' = silenceTimer s"
      "currentAudio s' = currentAudio s" "currentProcessingId s' = currentProcessingId s"
      "audioChunks s' = audioChunks s"
    using sus assms(2) unfolding s'_def
    by (auto simp: handler_defs Let_def history_append)
  have "\<forall>after. history r (effects (exec after s'))
          = take (progress st) [Read, STT, GPT, TTS, Play] @ [Failure, Failure]"
    using returned_inert_exec [OF ret] h' h by simp
  with ret fields show ?thesis unfolding s'_def s_def by (simp add: suspendedAt_def)
qed

theorem service_failure_contained_witness:
  "suspendedAt 0 AwaitSTT (exec firstUtteranceSent initialized)
   \<and> history 0 (effects (exec [AnimationFrame 1750 [255] True]
        (step (TranscribeSettled 0 1700 (Inl (Error ''503'')))
          (exec firstUtteranceSent initialized)))) = [Read, STT, Failure, Failure]
   \<and> mediaRecorder (exec [AnimationFrame 1750 [255] True]
        (step (TranscribeSettled 0 1700 (Inl (Error ''503'')))
          (exec firstUtteranceSent initialized))) = Some Recording
   \<and> suspendedAt 0 AwaitGPT
        (exec (firstUtteranceSent @ [TranscribeSettled 0 1700 (Inr (utf16 ''hello''))]) initialized)
   \<and> history 0 (effects (exec []
        (step (GenerateTextSettled 0 1800 (Inl (Error ''503'')))
          (exec (firstUtteranceSent @ [TranscribeSettled 0 1700 (Inr (utf16 ''hello''))])
             initialized)))) = [Read, STT, GPT, Failure, Failure]
   \<and> suspendedAt 1 AwaitSpeech (exec overlappingTurns initialized)
   \<and> history 1 (effects (exec []
        (step (GenerateSpeechSettled 1 (Inl (Error ''503'')))
          (exec overlappingTurns initialized)))) = [Read, STT, GPT, TTS, Failure, Failure]"
  using service_failure_contained [of 0 AwaitSTT firstUtteranceSent
      "TranscribeSettled 0 1700 (Inl (Error ''503''))" 1700 "Error ''503''"]
    service_failure_contained [of 0 AwaitGPT
      "firstUtteranceSent @ [TranscribeSettled 0 1700 (Inr (utf16 ''hello''))]"
      "GenerateTextSettled 0 1800 (Inl (Error ''503''))" 1800 "Error ''503''"]
    service_failure_contained [of 1 AwaitSpeech overlappingTurns
      "GenerateSpeechSettled 1 (Inl (Error ''503''))" 0 "Error ''503''"]
  by (simp add: eval_simps)

text \<open>
  C4, as amended. The id of a run is the decimal string of the reading of the wall clock
  (\<open>Date.now()\<close>) at its start, and later events never change it. For every two runs of
  one engine: when the clock reading at the start of the later run is strictly greater
  than the reading at the start of the earlier run, the two ids differ and the number the
  later id stands for is strictly greater.
\<close>

theorem processingId_later_clock:
  assumes "audioChunks s \<noteq> []"
    and "audioChunks (exec between (step (RecorderStopped t1 p1) s)) \<noteq> []"
    and "t1 < t2"
  shows "processingId (runs (step (RecorderStopped t2 p2)
             (exec between (step (RecorderStopped t1 p1) s))) ! length (runs s)) = toString t1
       \<and> processingId (runs (step (RecorderStopped t2 p2)
             (exec between (step (RecorderStopped t1 p1) s)))
            ! length (runs (exec between (step (RecorderStopped t1 p1) s)))) = toString t2
       \<and> toString t1 \<noteq> toString t2
       \<and> fromString (toString t1) < fromString (toString t2)"
proof -
  define s1 where "s1 = step (RecorderStopped t1 p1) s"
  define s2 where "s2 = exec between s1"
  define s3 where "s3 = step (RecorderStopped t2 p2) s2"
  have r1: "length (runs s) < length (runs s1)"
    and id1: "processingId (runs s1 ! length (runs s)) = toString t1"
    using assms(1) by (simp_all add: s1_def handler_defs Let_def)
  from processingId_exec [OF r1, of between]
  have r2: "length (runs s) < length (runs s2)"
    and id2: "processingId (runs s2 ! length (runs s)) = toString t1"
    by (simp_all add: s2_def id1)
  from processingId_step [OF r2, of "RecorderStopped t2 p2"]
  have id3: "processingId (runs s3 ! length (runs s)) = toString t1"
    by (simp add: s3_def id2)
  have new: "processingId (runs s3 ! length (runs s2)) = toString t2"
    using assms(2) by (simp add: s3_def s2_def s1_def handler_defs Let_def)
  from id3 new assms(3) show ?thesis
    by (simp add: s3_def s2_def s1_def toString_inj fromString_toString)
qed

theorem processingId_later_clock_witness:
  "processingId (runs (exec (overlappingTurns @ [DataAvailable [6], RecorderStopped 5000 5000])
       initialized) ! 1) = toString 3400
   \<and> processingId (runs (exec (overlappingTurns @ [DataAvailable [6], RecorderStopped 5000 5000])
       initialized) ! 2) = toString 5000
   \<and> toString 3400 \<noteq> toString 5000
   \<and> fromString (toString 3400) < fromString (toString 5000)"
  using processingId_later_clock [of "exec (firstReplyPlaying @
        [AnimationFrame 1900 [0] True, SilenceTimeout]) initialized"
      "[Base64Settled 1 (Inr (utf16 ''BAU='')), TranscribeSettled 1 3500 (Inr (utf16 ''wait'')),
        GenerateTextSettled 1 3600 (Inr (utf16 ''ok'')), DataAvailable [6]]"
      3400 3400 5000 5000]
  by (simp add: eval_simps exec_append)

text \<open>
  C4 as stated fails: \<open>Date.now()\<close> is the wall clock, and two runs that start at the same
  reading (here 1000, read again after the clock was set back) get the same id.
\<close>

theorem processingId_shared_counterexample:
  "length (runs (exec (firstReplyPlaying @
       [AnimationFrame 1900 [0] True, SilenceTimeout, RecorderStopped 1000 3400]) initialized)) = 2
   \<and> processingId (runs (exec (firstReplyPlaying @
       [AnimationFrame 1900 [0] True, SilenceTimeout, RecorderStopped 1000 3400]) initialized) ! 0)
     = processingId (runs (exec (firstReplyPlaying @
       [AnimationFrame 1900 [0] True, SilenceTimeout, RecorderStopped 1000 3400]) initialized) ! 1)"
  by (simp add: eval_simps)

text \<open>
  C3 fails on the code. The claim: at most one playback exists at any time, and a call to
  play synthesized audio while a previous playback is still active stops the previous
  playback before the new one starts. The code stores every element in \<open>currentAudio\<close>
  so that it can be interrupted, and every other path that drops the handle leaves the
  dropped element silent (\<open>interruptCurrentResponse\<close> pauses it first, \<open>onended\<close> and
  \<open>onerror\<close> run when it has stopped); \<open>playAudioWithInterruption\<close> alone overwrites the
  handle without pausing the element it held. Here the speech of run 1 is ready while
  element 0 is still played: element 1 starts, element 0 is never paused and both play.
  Element 0 is then out of reach: an interruption by the user pauses element 1 only; and
  if instead element 0 plays to its end, its handler clears the handle of element 1,
  which goes on playing while the engine reports that nothing is played.
\<close>

theorem overlapping_playback_not_stopped:
  "audioPlaying (exec overlappingTurns initialized)
   \<and> currentAudio (exec overlappingTurns initialized) = Some 0
   \<and> suspendedAt 1 AwaitSpeech (exec overlappingTurns initialized)
   \<and> currentAudio (exec (overlappingTurns @ [GenerateSpeechSettled 1 (Inr (utf16 ''u1''))])
        initialized) = Some 1
   \<and> \<not> paused (audios (exec (overlappingTurns @ [GenerateSpeechSettled 1 (Inr (utf16 ''u1''))])
        initialized) ! 0)
   \<and> \<not> paused (audios (exec (overlappingTurns @ [GenerateSpeechSettled 1 (Inr (utf16 ''u1''))])
        initialized) ! 1)
   \<and> AudioPause 0 \<notin> set (effects (exec (overlappingTurns @
        [GenerateSpeechSettled 1 (Inr (utf16 ''u1''))]) initialized))
   \<and> paused (audios (exec (overlappingTurns @
        [GenerateSpeechSettled 1 (Inr (utf16 ''u1'')), AnimationFrame 3700 [255] True])
        initialized) ! 1)
   \<and> \<not> paused (audios (exec (overlappingTurns @
        [GenerateSpeechSettled 1 (Inr (utf16 ''u1'')), AnimationFrame 3700 [255] True])
        initialized) ! 0)
   \<and> currentAudio (exec (overlappingTurns @
        [GenerateSpeechSettled 1 (Inr (utf16 ''u1'')), AnimationFrame 3700 [255] True])
        initialized) = None
   \<and> currentAudio (exec (overlappingTurns @
        [GenerateSpeechSettled 1 (Inr (utf16 ''u1'')), AudioEnded 0 3700])
        initialized) = None
   \<and> \<not> paused (audios (exec (overlappingTurns @
        [GenerateSpeechSettled 1 (Inr (utf16 ''u1'')), AudioEnded 0 3700])
        initialized) ! 1)
   \<and> \<not> isSpeaking (getProcessingState [0] (exec (overlappingTurns @
        [GenerateSpeechSettled 1 (Inr (utf16 ''u1'')), AudioEnded 0 3700])
        initialized))"
  by (simp add: eval_simps getProcessingState_def)

text \<open>
  C2, as amended. Whenever a sample above the interruption threshold arrives while the
  playback handle holds an element that is not paused, the engine pauses that element,
  clears the handle and clears the current processing id. The interruption counter is
  kept by the dashboard, which the engine cannot reach: the sample leaves it as it is.
  Only the dashboard's own interrupt action increments it, by exactly 1.
\<close>

theorem voice_interruption_stops_playback:
  assumes "voiceEngineRef ui = Some s"
    and "analyser s" and "INTERRUPTION_THRESHOLD < rms dataArray"
    and "currentAudio s = Some a" and "a < length (audios s)" and "\<not> paused (audios s ! a)"
  shows "voiceEngineRef (engineEvent (AnimationFrame now dataArray startOk) ui)
           = Some (detectActivity now dataArray startOk s)
       \<and> paused (audios (detectActivity now dataArray startOk s) ! a)
       \<and> AudioPause a \<in> set (effects (detectActivity now dataArray startOk s))
       \<and> currentAudio (detectActivity now dataArray startOk s) = None
       \<and> currentProcessingId (detectActivity now dataArray startOk s) = None
       \<and> interruptionCount (engineEvent (AnimationFrame now dataArray startOk) ui)
           = interruptionCount ui
       \<and> interruptionCount (interruptAgent ui) = interruptionCount ui + 1"
  using assms
  by (simp add: engineEvent_def interruptAgent_def handler_defs Let_def)

theorem voice_interruption_stops_playback_witness:
  "INTERRUPTION_THRESHOLD < rms [255]
   \<and> currentAudio (exec firstReplyPlaying initialized) = Some 0
   \<and> \<not> paused (audios (exec firstReplyPlaying initialized) ! 0)
   \<and> currentProcessingId (exec firstReplyPlaying initialized) = Some (toString 1000)
   \<and> paused (audios (detectActivity 2000 [255] True (exec firstReplyPlaying initialized)) ! 0)
   \<and> currentAudio (detectActivity 2000 [255] True (exec firstReplyPlaying initialized)) = None
   \<and> currentProcessingId (detectActivity 2000 [255] True (exec firstReplyPlaying initialized))
       = None
   \<and> interruptionCount (interruptAgent
        \<lparr>voiceEngineRef = Some (exec firstReplyPlaying initialized), interruptionCount = 0\<rparr>) = 1"
  using voice_interruption_stops_playback
    [of "\<lparr>voiceEngineRef = Some (exec firstReplyPlaying initialized), interruptionCount = 0\<rparr>"
      "exec firstReplyPlaying initialized" "[255]" 0 2000 True]
  by (simp add: eval_simps)

text \<open>
  C2 as stated fails: element 0 is played and the counter is 0; a sample of volume 1
  stops the playback and clears the id, and the counter is still 0.
\<close>

theorem voice_interruption_counter_counterexample:
  "audioPlaying (exec firstReplyPlaying initialized)
   \<and> INTERRUPTION_THRESHOLD < rms [255]
   \<and> interruptionCount (engineEvent (AnimationFrame 2000 [255] True)
        \<lparr>voiceEngineRef = Some (exec firstReplyPlaying initialized), interruptionCount = 0\<rparr>) = 0
   \<and> interruptionCount (engineEvent (AnimationFrame 2000 [255] True)
        \<lparr>voiceEngineRef = Some (exec firstReplyPlaying initialized), interruptionCount = 0\<rparr>)
       \<noteq> 0 + 1"
  by (simp add: engineEvent_def eval_simps)

text \<open>
  C1 fails on the code. While run 1 waits for its synthesized speech, the user interrupts
  the playback of element 0: the current processing id, which was the id 3400 of run 1,
  is cleared. The run does not look at the id after the synthesis, as it does after the
  transcription and after the reply generation: when the speech arrives it is played as
  element 1, and when that playback ends the latencies of the run are logged as those of
  a completed generation.
\<close>

theorem stale_speech_is_played:
  "currentProcessingId (exec overlappingTurns initialized) = Some (toString 3400)
   \<and> processingId (runs (exec overlappingTurns initialized) ! 1) = toString 3400
   \<and> suspendedAt 1 AwaitSpeech
        (exec (overlappingTurns @ [AnimationFrame 3650 [255] True]) initialized)
   \<and> currentProcessingId
        (exec (overlappingTurns @ [AnimationFrame 3650 [255] True]) initialized) = None
   \<and> AudioPlay 1 1 \<in> set (effects (exec (overlappingTurns @
        [AnimationFrame 3650 [255] True, GenerateSpeechSettled 1 (Inr (utf16 ''u1''))])
        initialized))
   \<and> audioPlaying (exec (overlappingTurns @
        [AnimationFrame 3650 [255] True, GenerateSpeechSettled 1 (Inr (utf16 ''u1''))])
        initialized)
   \<and> LogProcessingMetrics 1 100 100 1400 1600 \<in> set (effects (exec (overlappingTurns @
        [AnimationFrame 3650 [255] True, GenerateSpeechSettled 1 (Inr (utf16 ''u1'')),
         AudioEnded 1 5000]) initialized))
   \<and> history 1 (effects (exec (overlappingTurns @
        [AnimationFrame 3650 [255] True, GenerateSpeechSettled 1 (Inr (utf16 ''u1'')),
         AudioEnded 1 5000]) initialized)) = [Read, STT, GPT, TTS, Play, Metrics]"
  by (simp add: eval_simps)

end
